theory Spec2Isabelle
  imports Complex_Main
begin

section \<open>Data model of \<open>smt/sm.py\<close>\<close>

text \<open>
  A two-dimensional numpy array is kept with its column count and its rows, so that an
  array of shape \<open>(0, d)\<close> still knows \<open>d\<close>. Floating-point entries are idealised as
  reals; no result below depends on their arithmetic.
\<close>

record ndarray =
  ncols :: nat
  rows :: "real list list"

definition shape0 :: "ndarray \<Rightarrow> nat" where
  "shape0 a = length (rows a)"

definition shape1 :: "ndarray \<Rightarrow> nat" where
  "shape1 a = ncols a"

text \<open>Keys of the dictionaries the code indexes: strings and integers.\<close>

datatype pykey = KStr string | KInt int

text \<open>
  Every exception the modelled code can raise. \<open>ValueError_no_data\<close> is the explicit
  \<open>raise ValueError('There is no training point data available for kx ...')\<close>;
  the other \<open>ValueError\<close>s come from numpy (\<open>reshape\<close>, \<open>vstack\<close>, broadcasting).
  \<open>AttributeError\<close> is what \<open>self.printer.active = ...\<close> raises while the printer is
  \<open>None\<close>. \<open>IOError\<close>, \<open>UnpicklingError\<close> and \<open>TypeError\<close> arise in
  \<open>smt/utils/caching.py\<close>.
  \<open>HookError\<close> stands for whatever the algorithm-specific \<open>fit\<close> and \<open>evaluate\<close> raise.
\<close>

datatype error =
    KeyError pykey
  | ValueError_no_data int
  | ValueError_reshape
  | ValueError_vstack
  | ValueError_broadcast
  | UnboundLocalError
  | ZeroDivisionError
  | AttributeError
  | IOError
  | UnpicklingError
  | TypeError
  | HookError string

text \<open>
  The errors that report training data missing for a fidelity/derivative key: the
  explicit \<open>ValueError\<close> of \<open>compute_rms_error\<close> and the \<open>KeyError\<close> of a store lookup.
\<close>

fun missing_data_error :: "error \<Rightarrow> bool" where
  "missing_data_error (KeyError k) = True"
| "missing_data_error (ValueError_no_data k) = True"
| "missing_data_error e = False"

type_synonym training_pts_t = "string \<rightharpoonup> (int \<rightharpoonup> ndarray \<times> ndarray)"

text \<open>
  The attributes of an \<open>SM\<close> instance. \<open>dim\<close> and \<open>nt\<close> do not exist until
  \<open>add_training_pts\<close> assigns them; \<open>printer\<close> is \<open>None\<close> while a checksum is taken.
  The option values and the printer are opaque (\<open>'v\<close>, \<open>'p\<close>): \<open>Printer\<close> and the
  subclasses that own the defaults are not part of the modelled sources.
\<close>

record ('v, 'p) sm =
  sm_options :: "string \<rightharpoonup> 'v"
  printf_options :: "string \<rightharpoonup> bool"
  training_pts :: training_pts_t
  printer :: "'p option"
  dim :: "nat option"
  nt :: "nat option"

text \<open>
  \<open>SM.__init__\<close>: the defaults (set by the subclass's \<open>_set_default_options\<close>) are
  updated with the caller's dictionaries, the store starts as \<open>{'exact': {}}\<close>.
\<close>

definition SM_init ::
  "(string \<rightharpoonup> 'v) \<Rightarrow> (string \<rightharpoonup> bool) \<Rightarrow> 'p \<Rightarrow>
   (string \<rightharpoonup> 'v) option \<Rightarrow> (string \<rightharpoonup> bool) option \<Rightarrow> ('v, 'p) sm" where
  "SM_init default_sm default_printf new_printer sm_opts printf_opts =
     \<lparr> sm_options = (case sm_opts of None \<Rightarrow> default_sm | Some d \<Rightarrow> default_sm ++ d),
       printf_options = (case printf_opts of None \<Rightarrow> default_printf | Some d \<Rightarrow> default_printf ++ d),
       training_pts = [''exact'' \<mapsto> Map.empty],
       printer = Some new_printer,
       dim = None,
       nt = None \<rparr>"

section \<open>numpy operations used by the code\<close>

text \<open>
  \<open>y.reshape((n, 1))\<close> on an array given by its flattened (C order) contents: it needs
  exactly \<open>n\<close> values and yields one value per row.
\<close>

definition reshape_n1 :: "real list \<Rightarrow> nat \<Rightarrow> error + ndarray" where
  "reshape_n1 ys n =
     (if length ys = n then Inr \<lparr> ncols = 1, rows = map (\<lambda>y. [y]) ys \<rparr>
      else Inl ValueError_reshape)"

text \<open>\<open>np.vstack([a, b])\<close> on two-dimensional arrays: the column counts must agree.\<close>

definition vstack :: "ndarray \<Rightarrow> ndarray \<Rightarrow> error + ndarray" where
  "vstack a b =
     (if ncols a = ncols b then Inr \<lparr> ncols = ncols a, rows = rows a @ rows b \<rparr>
      else Inl ValueError_vstack)"

text \<open>Broadcasting of one axis, and elementwise \<open>a - b\<close> under it.\<close>

definition bshape :: "nat \<Rightarrow> nat \<Rightarrow> nat option" where
  "bshape m n = (if m = n then Some m else if m = 1 then Some n else if n = 1 then Some m else None)"

definition entry :: "ndarray \<Rightarrow> nat \<Rightarrow> nat \<Rightarrow> real" where
  "entry a i j = rows a ! (if shape0 a = 1 then 0 else i) ! (if ncols a = 1 then 0 else j)"

definition subtract :: "ndarray \<Rightarrow> ndarray \<Rightarrow> error + ndarray" where
  "subtract a b =
     (case (bshape (shape0 a) (shape0 b), bshape (ncols a) (ncols b)) of
        (Some r, Some c) \<Rightarrow>
          Inr \<lparr> ncols = c,
                rows = map (\<lambda>i. map (\<lambda>j. entry a i j - entry b i j) [0..<c]) [0..<r] \<rparr>
      | _ \<Rightarrow> Inl ValueError_broadcast)"

text \<open>\<open>np.linalg.norm\<close> of a two-dimensional array (Frobenius norm).\<close>

definition linalg_norm :: "ndarray \<Rightarrow> real" where
  "linalg_norm a = sqrt (sum_list (map (\<lambda>r. sum_list (map (\<lambda>x. x * x) r)) (rows a)))"

section \<open>The model lifecycle\<close>

text \<open>The key of the store for a derivative index: 0 for values, \<open>k + 1\<close> for derivative \<open>k\<close>.\<close>

definition key_of :: "int option \<Rightarrow> int" where
  "key_of kx = (case kx of None \<Rightarrow> 0 | Some k \<Rightarrow> k + 1)"

text \<open>
  Reading the reporting toggles: \<open>printf_options[k]\<close>, and
  \<open>printf_options[k1] and printf_options[k2]\<close>, which reads \<open>k2\<close> only when \<open>k1\<close> is set.
\<close>

definition flag :: "(string \<rightharpoonup> bool) \<Rightarrow> string \<Rightarrow> error + bool" where
  "flag opts k = (case opts k of None \<Rightarrow> Inl (KeyError (KStr k)) | Some b \<Rightarrow> Inr b)"

definition flag_and :: "(string \<rightharpoonup> bool) \<Rightarrow> string \<Rightarrow> string \<Rightarrow> error + bool" where
  "flag_and opts k1 k2 =
     (case flag opts k1 of
        Inl e \<Rightarrow> Inl e
      | Inr b \<Rightarrow> if b then flag opts k2 else Inr False)"

text \<open>
  \<open>SM.predict\<close>. The algorithm's \<open>evaluate\<close> is a parameter; it returns the flattened
  contents of its result. Of the reporting calls, only what can raise is modelled: the
  lookups of the toggles and of the model name, the assignment to \<open>self.printer.active\<close>,
  and the time per point, which divides by \<open>n_evals\<close> (\<open>Printer._time\<close> is taken to
  return a Python float).
\<close>

definition predict ::
  "(ndarray \<Rightarrow> int \<Rightarrow> error + real list) \<Rightarrow> ('v, 'p) sm \<Rightarrow> ndarray \<Rightarrow> int option \<Rightarrow>
   error + ndarray" where
  "predict evaluate self x kx =
     (let n_evals = shape0 x in
      case flag_and (printf_options self) ''global'' ''time_eval'' of
        Inl e \<Rightarrow> Inl e
      | Inr active \<Rightarrow>
          (case printer self of
             None \<Rightarrow> Inl AttributeError
           | Some p \<Rightarrow>
               (case sm_options self ''name'' of
                  None \<Rightarrow> Inl (KeyError (KStr ''name''))
                | Some name \<Rightarrow>
                    (let kx' = (case kx of None \<Rightarrow> 0 | Some k \<Rightarrow> k + 1)
                     in case evaluate x kx' of
                          Inl e \<Rightarrow> Inl e
                        | Inr y \<Rightarrow>
                            if n_evals = 0 then Inl ZeroDivisionError
                            else reshape_n1 y n_evals))))"

text \<open>
  \<open>SM.compute_rms_error\<close>. The result is \<open>Some r\<close> for a returned float and \<open>None\<close>
  when the function falls off its end. In the branch \<open>kx is not None\<close> the statement
  \<open>kx2 += 1\<close> reads the local \<open>kx2\<close> before any assignment to it.
\<close>

definition compute_rms_error ::
  "(ndarray \<Rightarrow> int \<Rightarrow> error + real list) \<Rightarrow> ('v, 'p) sm \<Rightarrow>
   ndarray option \<Rightarrow> ndarray option \<Rightarrow> int option \<Rightarrow> error + real option" where
  "compute_rms_error evaluate self xe ye kx =
     (case (xe, ye) of
        (Some xe', Some ye') \<Rightarrow>
          (case predict evaluate self xe' kx of
             Inl e \<Rightarrow> Inl e
           | Inr ye2 \<Rightarrow>
               (case subtract ye2 ye' of
                  Inl e \<Rightarrow> Inl e
                | Inr d \<Rightarrow> Inr (Some (linalg_norm d / linalg_norm ye'))))
      | (None, None) \<Rightarrow>
          (case kx of
             Some k \<Rightarrow> Inl UnboundLocalError
           | None \<Rightarrow>
               (let kx2 = 0 in
                case training_pts self ''exact'' of
                  None \<Rightarrow> Inl (KeyError (KStr ''exact''))
                | Some pts \<Rightarrow>
                    (case pts kx2 of
                       None \<Rightarrow> Inl (ValueError_no_data kx2)
                     | Some (xt, yt) \<Rightarrow>
                         (case predict evaluate self xt kx of
                            Inl e \<Rightarrow> Inl e
                          | Inr yt2 \<Rightarrow>
                              (case subtract yt2 yt of
                                 Inl e \<Rightarrow> Inl e
                               | Inr d \<Rightarrow>
                                   (let num = 0 + (linalg_norm d)\<^sup>2;
                                        den = 0 + (linalg_norm yt)\<^sup>2
                                    in Inr (Some (sqrt num / sqrt den))))))))
      | _ \<Rightarrow> Inr None)"

text \<open>
  \<open>SM.add_training_pts\<close>. \<open>yt\<close> is given by its flattened contents. Python keeps the
  assignments made before an exception, so the instance is returned together with the
  exception, if any.
\<close>

definition set_pts ::
  "('v, 'p) sm \<Rightarrow> string \<Rightarrow> (int \<rightharpoonup> ndarray \<times> ndarray) \<Rightarrow> int \<Rightarrow> ndarray \<times> ndarray \<Rightarrow> ('v, 'p) sm" where
  "set_pts self typ pts k v = self\<lparr> training_pts := (training_pts self)(typ \<mapsto> pts(k \<mapsto> v)) \<rparr>"

definition add_training_pts ::
  "('v, 'p) sm \<Rightarrow> string \<Rightarrow> ndarray \<Rightarrow> real list \<Rightarrow> int option \<Rightarrow> error option \<times> ('v, 'p) sm" where
  "add_training_pts self typ xt yt kx =
     (case reshape_n1 yt (shape0 xt) of
        Inl e \<Rightarrow> (Some e, self)
      | Inr yt' \<Rightarrow>
          (let (kx', self1) =
                 (case kx of
                    None \<Rightarrow> (0, self\<lparr> dim := Some (shape1 xt), nt := Some (shape0 xt) \<rparr>)
                  | Some k \<Rightarrow> (k + 1, self))
           in case training_pts self1 typ of
                None \<Rightarrow> (Some (KeyError (KStr typ)), self1)
              | Some pts \<Rightarrow>
                  (case pts kx' of
                     Some (x0, y0) \<Rightarrow>
                       (case vstack x0 xt of
                          Inl e \<Rightarrow> (Some e, self1)
                        | Inr x1 \<Rightarrow>
                            (case vstack y0 yt' of
                               Inl e \<Rightarrow> (Some e, set_pts self1 typ pts kx' (x1, y0))
                             | Inr y1 \<Rightarrow> (None, set_pts self1 typ pts kx' (x1, y1))))
                   | None \<Rightarrow> (None, set_pts self1 typ pts kx' (xt, yt')))))"

text \<open>
  \<open>SM.train\<close>. The first statement reads \<open>training_pts['exact'][0][0].shape[0]\<close>; the
  banner then reads the reporting toggles and the model name and assigns to
  \<open>self.printer.active\<close>; at last the algorithm's \<open>fit\<close> (a parameter) runs. What is
  printed is not modelled.
\<close>

definition train ::
  "(('v, 'p) sm \<Rightarrow> error + ('v, 'p) sm) \<Rightarrow> ('v, 'p) sm \<Rightarrow> error + ('v, 'p) sm" where
  "train fit self =
     (case training_pts self ''exact'' of
        None \<Rightarrow> Inl (KeyError (KStr ''exact''))
      | Some pts \<Rightarrow>
          (case pts 0 of
             None \<Rightarrow> Inl (KeyError (KInt 0))
           | Some (x, y) \<Rightarrow>
               (let n_exact = shape0 x in
                case flag (printf_options self) ''global'' of
                  Inl e \<Rightarrow> Inl e
                | Inr g \<Rightarrow>
                    (case printer self of
                       None \<Rightarrow> Inl AttributeError
                     | Some p \<Rightarrow>
                         (case sm_options self ''name'' of
                            None \<Rightarrow> Inl (KeyError (KStr ''name''))
                          | Some name \<Rightarrow>
                              (case flag_and (printf_options self) ''global'' ''problem'' of
                                 Inl e \<Rightarrow> Inl e
                               | Inr p \<Rightarrow>
                                   (case flag_and (printf_options self) ''global'' ''time_train'' of
                                      Inl e \<Rightarrow> Inl e
                                    | Inr t \<Rightarrow> fit self)))))))"

section \<open>The result cache of \<open>smt/utils/caching.py\<close>\<close>

text \<open>
  Python values as far as the cache looks at them: \<open>None\<close>, a string, or anything else
  (\<open>'d\<close>). What \<open>pickle.load\<close> returns is a dictionary with string keys or some
  other value.
\<close>

datatype 'd pyval = PyNone | PyStr string | PyData 'd

datatype 'd unpickled = PyDict "string \<rightharpoonup> 'd pyval" | PyOther "'d pyval"

text \<open>
  The file system: the contents (\<open>'b\<close>) of the files that can be opened for reading, and
  the names that can be opened for writing.
\<close>

record 'b filesystem =
  files :: "string \<rightharpoonup> 'b"
  writable :: "string \<Rightarrow> bool"

text \<open>
  The body of the \<open>try\<close> block of \<open>_caching_load\<close>, with each exception as a value.
  \<open>loads\<close> is \<open>pickle.load\<close> on the contents of an opened file; \<open>None\<close> is its failure.
\<close>

definition caching_load_try ::
  "('b \<Rightarrow> 'd unpickled option) \<Rightarrow> 'b filesystem \<Rightarrow> string \<Rightarrow> string \<Rightarrow> error + bool \<times> 'd pyval" where
  "caching_load_try loads fs filename checksum =
     (case files fs filename of
        None \<Rightarrow> Inl IOError
      | Some contents \<Rightarrow>
          (case loads contents of
             None \<Rightarrow> Inl UnpicklingError
           | Some (PyOther v) \<Rightarrow> Inl TypeError
           | Some (PyDict save_pkl) \<Rightarrow>
               (case save_pkl ''checksum'' of
                  None \<Rightarrow> Inl (KeyError (KStr ''checksum''))
                | Some c \<Rightarrow>
                    if PyStr checksum = c then
                      (case save_pkl ''data'' of
                         None \<Rightarrow> Inl (KeyError (KStr ''data''))
                       | Some d \<Rightarrow> Inr (True, d))
                    else Inr (False, PyNone))))"

text \<open>\<open>_caching_load\<close>: the bare \<open>except\<close> turns every exception into \<open>(False, None)\<close>.\<close>

definition caching_load ::
  "('b \<Rightarrow> 'd unpickled option) \<Rightarrow> 'b filesystem \<Rightarrow> string \<Rightarrow> string \<Rightarrow> bool \<times> 'd pyval" where
  "caching_load loads fs filename checksum =
     (case caching_load_try loads fs filename checksum of
        Inl e \<Rightarrow> (False, PyNone)
      | Inr r \<Rightarrow> r)"

text \<open>
  \<open>_caching_save\<close>: \<open>dumps\<close> is what \<open>pickle.dump\<close> writes for an object; opening the
  file for writing may fail, and that exception is not caught.
\<close>

definition caching_save ::
  "('d unpickled \<Rightarrow> 'b) \<Rightarrow> 'b filesystem \<Rightarrow> string \<Rightarrow> string \<Rightarrow> 'd pyval \<Rightarrow> error + 'b filesystem" where
  "caching_save dumps fs filename checksum data =
     (let save_dict = [''checksum'' \<mapsto> PyStr checksum, ''data'' \<mapsto> data]
      in if writable fs filename
         then Inr (fs\<lparr> files := (files fs)(filename \<mapsto> dumps (PyDict save_dict)) \<rparr>)
         else Inl IOError)"



section \<open>Notions of the specification\<close>

text \<open>What the store holds for a fidelity tag and a key, and the rows of that entry.\<close>

definition stored :: "('v, 'p) sm \<Rightarrow> string \<Rightarrow> int \<Rightarrow> (ndarray \<times> ndarray) option" where
  "stored self typ k = (case training_pts self typ of None \<Rightarrow> None | Some pts \<Rightarrow> pts k)"

definition stored_x_rows :: "('v, 'p) sm \<Rightarrow> string \<Rightarrow> int \<Rightarrow> real list list" where
  "stored_x_rows self typ k = (case stored self typ k of None \<Rightarrow> [] | Some (x, y) \<Rightarrow> rows x)"

definition stored_y_rows :: "('v, 'p) sm \<Rightarrow> string \<Rightarrow> int \<Rightarrow> real list list" where
  "stored_y_rows self typ k = (case stored self typ k of None \<Rightarrow> [] | Some (x, y) \<Rightarrow> rows y)"

text \<open>
  The store invariant: every entry has as many rows of Y as of X, and its Y has one
  column.
\<close>

definition store_inv :: "('v, 'p) sm \<Rightarrow> bool" where
  "store_inv self =
     (\<forall>typ k x y. stored self typ k = Some (x, y) \<longrightarrow> shape0 x = shape0 y \<and> ncols y = 1)"

text \<open>
  The record (checksum, payload) at a location, when the file there can be read and
  unpickles to a dictionary with both fields.
\<close>

definition record_at ::
  "('b \<Rightarrow> 'd unpickled option) \<Rightarrow> 'b filesystem \<Rightarrow> string \<Rightarrow> ('d pyval \<times> 'd pyval) option" where
  "record_at loads fs filename =
     (case files fs filename of
        None \<Rightarrow> None
      | Some contents \<Rightarrow>
          (case loads contents of
             Some (PyDict d) \<Rightarrow>
               (case (d ''checksum'', d ''data'') of
                  (Some c, Some p) \<Rightarrow> Some (c, p)
                | _ \<Rightarrow> None)
           | _ \<Rightarrow> None))"

section \<open>Auxiliary definitions\<close>

text \<open>
  The instance after the first \<open>if\<close> of \<open>add_training_pts\<close>: a value insertion has
  assigned \<open>dim\<close> and \<open>nt\<close>, a derivative insertion has assigned nothing.
\<close>

definition enter :: "('v, 'p) sm \<Rightarrow> ndarray \<Rightarrow> int option \<Rightarrow> ('v, 'p) sm" where
  "enter self xt kx =
     (case kx of None \<Rightarrow> self\<lparr> dim := Some (shape1 xt), nt := Some (shape0 xt) \<rparr>
      | Some k \<Rightarrow> self)"

text \<open>Concrete inputs: a fresh model, two arrays with one column, a file system.\<close>

definition example_sm :: "(nat, nat) sm" where
  "example_sm = SM_init Map.empty Map.empty 0 None None"

definition example_x1 :: ndarray where
  "example_x1 = \<lparr> ncols = 1, rows = [[0]] \<rparr>"

definition example_x2 :: ndarray where
  "example_x2 = \<lparr> ncols = 1, rows = [[1], [2]] \<rparr>"

definition example_fs :: "nat unpickled filesystem" where
  "example_fs = \<lparr> files = [''sm.pkl'' \<mapsto> PyOther PyNone], writable = (\<lambda>f. True) \<rparr>"

section \<open>Unfolding \<open>add_training_pts\<close>\<close>

lemma training_pts_enter: "training_pts (enter self xt kx) = training_pts self"
  by (simp add: enter_def split: option.splits)

lemma add_training_pts_bad_shape:
  "length yt \<noteq> shape0 xt \<Longrightarrow>
   add_training_pts self typ xt yt kx = (Some ValueError_reshape, self)"
  by (simp add: add_training_pts_def reshape_n1_def)

lemma add_training_pts_good_shape:
  "length yt = shape0 xt \<Longrightarrow>
   add_training_pts self typ xt yt kx =
     (case training_pts self typ of
        None \<Rightarrow> (Some (KeyError (KStr typ)), enter self xt kx)
      | Some pts \<Rightarrow>
          (case pts (key_of kx) of
             Some (x0, y0) \<Rightarrow>
               (case vstack x0 xt of
                  Inl e \<Rightarrow> (Some e, enter self xt kx)
                | Inr x1 \<Rightarrow>
                    (case vstack y0 \<lparr> ncols = 1, rows = map (\<lambda>y. [y]) yt \<rparr> of
                       Inl e \<Rightarrow> (Some e, set_pts (enter self xt kx) typ pts (key_of kx) (x1, y0))
                     | Inr y1 \<Rightarrow> (None, set_pts (enter self xt kx) typ pts (key_of kx) (x1, y1))))
           | None \<Rightarrow>
               (None, set_pts (enter self xt kx) typ pts (key_of kx)
                        (xt, \<lparr> ncols = 1, rows = map (\<lambda>y. [y]) yt \<rparr>))))"
  by (cases kx)
     (simp_all add: add_training_pts_def reshape_n1_def enter_def key_of_def
        cong: option.case_cong sum.case_cong prod.case_cong)

lemma stored_set_pts:
  "stored (set_pts self typ pts k v) typ' k' =
     (if typ' = typ then (if k' = k then Some v else pts k') else stored self typ' k')"
  by (simp add: stored_def set_pts_def)

lemma stored_enter: "stored (enter self xt kx) typ k = stored self typ k"
  by (simp add: stored_def training_pts_enter)

lemma training_pts_set_pts:
  "training_pts (set_pts self typ pts k v) typ = Some (pts(k \<mapsto> v))"
  by (simp add: set_pts_def)

lemma add_training_pts_once:
  assumes tier: "training_pts self typ = Some pts"
    and len: "length yt = shape0 xt"
    and old: "\<forall>x0 y0. pts (key_of kx) = Some (x0, y0) \<longrightarrow> ncols x0 = ncols xt \<and> ncols y0 = 1"
  shows "fst (add_training_pts self typ xt yt kx) = None \<and>
      stored_x_rows (snd (add_training_pts self typ xt yt kx)) typ (key_of kx) =
           stored_x_rows self typ (key_of kx) @ rows xt \<and>
      stored_y_rows (snd (add_training_pts self typ xt yt kx)) typ (key_of kx) =
           stored_y_rows self typ (key_of kx) @ map (\<lambda>y. [y]) yt \<and>
      (\<exists>pts'. training_pts (snd (add_training_pts self typ xt yt kx)) typ = Some pts' \<and>
           (\<forall>x0 y0. pts' (key_of kx) = Some (x0, y0) \<longrightarrow> ncols x0 = ncols xt \<and> ncols y0 = 1))"
proof (cases "pts (key_of kx)")
  case None
  have old_rows: "stored self typ (key_of kx) = None"
    using tier None by (simp add: stored_def)
  show ?thesis
    using tier old_rows None
    by (simp add: add_training_pts_good_shape [OF len] stored_x_rows_def stored_y_rows_def
          stored_set_pts training_pts_set_pts)
next
  case (Some xy)
  obtain x0 y0 where xy: "xy = (x0, y0)" by (cases xy)
  have c: "ncols x0 = ncols xt" "ncols y0 = 1"
    using old Some xy by auto
  have old_rows: "stored self typ (key_of kx) = Some (x0, y0)"
    using tier Some xy by (simp add: stored_def)
  show ?thesis
    using tier old_rows Some xy c
    by (simp add: add_training_pts_good_shape [OF len] stored_x_rows_def stored_y_rows_def
          stored_set_pts training_pts_set_pts vstack_def)
qed

lemma add_training_pts_success:
  assumes ok: "fst (add_training_pts self typ xt yt kx) = None"
  shows "length yt = shape0 xt \<and>
         stored_x_rows (snd (add_training_pts self typ xt yt kx)) typ (key_of kx) =
           stored_x_rows self typ (key_of kx) @ rows xt \<and>
         stored_y_rows (snd (add_training_pts self typ xt yt kx)) typ (key_of kx) =
           stored_y_rows self typ (key_of kx) @ map (\<lambda>y. [y]) yt"
proof -
  have len: "length yt = shape0 xt"
  proof (rule ccontr)
    assume "length yt \<noteq> shape0 xt"
    then show False using ok by (simp add: add_training_pts_bad_shape)
  qed
  obtain pts where tier: "training_pts self typ = Some pts"
    using ok by (cases "training_pts self typ") (simp_all add: add_training_pts_good_shape [OF len])
  have old: "\<forall>x0 y0. pts (key_of kx) = Some (x0, y0) \<longrightarrow> ncols x0 = ncols xt \<and> ncols y0 = 1"
  proof (intro allI impI)
    fix x0 y0
    assume "pts (key_of kx) = Some (x0, y0)"
    then show "ncols x0 = ncols xt \<and> ncols y0 = 1"
      using ok tier
      by (simp add: add_training_pts_good_shape [OF len] vstack_def split: if_splits)
  qed
  show ?thesis
    using add_training_pts_once [OF tier len old] len by blast
qed

section \<open>Error metric\<close>

text \<open>
  C1. In self-check mode with a derivative index \<open>k\<close>, the code does not reach the
  store: \<open>kx2 += 1\<close> raises UnboundLocalError for every model, whatever is stored at
  key \<open>k + 1\<close>. The lookup of the pair at key \<open>k + 1\<close> and the relative norm that
  the specification describes are never computed.
\<close>

theorem compute_rms_error_self_check_derivative:
  "compute_rms_error evaluate self None None (Some k) = Inl UnboundLocalError"
  by (simp add: compute_rms_error_def)

text \<open>
  C2. When exactly one of \<open>xe\<close> and \<open>ye\<close> is supplied, neither branch of the
  \<open>if\<close>/\<open>elif\<close> is taken: the call raises nothing and returns \<open>None\<close>, where the
  specification asks for an ArgumentError.
\<close>

theorem compute_rms_error_partial_supply:
  "compute_rms_error evaluate self (Some xe) None kx = Inr None \<and>
   compute_rms_error evaluate self None (Some ye) kx = Inr None"
  by (simp add: compute_rms_error_def)

section \<open>Missing training data\<close>

text \<open>
  Where the data is missing and the code reaches the lookup, it fails with an error that
  reports it: \<open>train\<close> with the \<open>KeyError\<close> of the key 0, the self-check of the values
  with the explicit \<open>ValueError\<close>.
\<close>

lemma train_no_exact_data:
  "training_pts self ''exact'' = Some pts \<Longrightarrow> pts 0 = None \<Longrightarrow>
   train fit self = Inl (KeyError (KInt 0))"
  by (simp add: train_def)

lemma self_check_value_no_data:
  "training_pts self ''exact'' = Some pts \<Longrightarrow> pts 0 = None \<Longrightarrow>
   compute_rms_error evaluate self None None None = Inl (ValueError_no_data 0)"
  by (simp add: compute_rms_error_def)

text \<open>
  C3. The self-check of a derivative on a fresh model, whose key 1 was never populated,
  does not fail with a missing-data error: it fails with the UnboundLocalError of
  \<open>kx2 += 1\<close>, before the test \<open>kx2 not in self.training_pts['exact']\<close> is reached.
\<close>

theorem self_check_derivative_missing_data:
  "stored example_sm ''exact'' 1 = None \<and>
   compute_rms_error evaluate example_sm None None (Some 0) = Inl UnboundLocalError \<and>
   \<not> missing_data_error UnboundLocalError"
  by (simp add: compute_rms_error_def stored_def example_sm_def SM_init_def)

section \<open>The training data store\<close>

text \<open>
  C4, as the specification states it, fails on the code: a second value insertion
  overwrites \<open>nt\<close>. After one row and then two rows have been added for the values,
  \<open>nt\<close> is 2 and no longer the 1 that the first insertion recorded.
\<close>

theorem second_value_append_changes_nt:
  "fst (add_training_pts example_sm ''exact'' example_x1 [0] None) = None \<and>
   fst (add_training_pts (snd (add_training_pts example_sm ''exact'' example_x1 [0] None))
          ''exact'' example_x2 [1, 2] None) = None \<and>
   nt (snd (add_training_pts example_sm ''exact'' example_x1 [0] None)) = Some 1 \<and>
   nt (snd (add_training_pts (snd (add_training_pts example_sm ''exact'' example_x1 [0] None))
          ''exact'' example_x2 [1, 2] None)) = Some 2 \<and>
   nt (snd (add_training_pts (snd (add_training_pts example_sm ''exact'' example_x1 [0] None))
          ''exact'' example_x2 [1, 2] None)) \<noteq>
   nt (snd (add_training_pts example_sm ''exact'' example_x1 [0] None))"
  by (simp add: add_training_pts_def reshape_n1_def vstack_def set_pts_def shape0_def shape1_def
        example_sm_def example_x1_def example_x2_def SM_init_def)

text \<open>
  C4 (as the code has it). \<open>dim\<close> and \<open>nt\<close> are assigned by every value insertion
  (\<open>kx\<close> is \<open>None\<close>) whose \<open>yt\<close> holds as many values as \<open>xt\<close> has rows, from the column and
  row counts of that call's \<open>xt\<close>, whether or not it is the first insertion; a derivative
  insertion never changes them, and a call whose \<open>yt\<close> has another length changes nothing.
\<close>

theorem add_training_pts_dim_nt:
  "(kx \<noteq> None \<longrightarrow>
      dim (snd (add_training_pts self typ xt yt kx)) = dim self \<and>
      nt (snd (add_training_pts self typ xt yt kx)) = nt self) \<and>
   (kx = None \<and> length yt = shape0 xt \<longrightarrow>
      dim (snd (add_training_pts self typ xt yt kx)) = Some (shape1 xt) \<and>
      nt (snd (add_training_pts self typ xt yt kx)) = Some (shape0 xt)) \<and>
   (length yt \<noteq> shape0 xt \<longrightarrow> snd (add_training_pts self typ xt yt kx) = self)"
  by (auto simp add: add_training_pts_def reshape_n1_def set_pts_def vstack_def
       split: option.splits sum.splits prod.splits)

theorem add_training_pts_dim_nt_witness:
  "dim (snd (add_training_pts example_sm ''exact'' example_x2 [1, 2] None)) = Some 1 \<and>
   nt (snd (add_training_pts example_sm ''exact'' example_x2 [1, 2] None)) = Some 2 \<and>
   dim (snd (add_training_pts example_sm ''exact'' example_x2 [1, 2] (Some 0))) = None \<and>
   nt (snd (add_training_pts example_sm ''exact'' example_x2 [1, 2] (Some 0))) = None \<and>
   snd (add_training_pts example_sm ''exact'' example_x2 [1] None) = example_sm"
  using add_training_pts_dim_nt [of None example_sm "''exact''" example_x2 "[1, 2]"]
    add_training_pts_dim_nt [of "Some 0" example_sm "''exact''" example_x2 "[1, 2]"]
    add_training_pts_dim_nt [of None example_sm "''exact''" example_x2 "[1]"]
  by (simp add: shape0_def shape1_def example_x2_def example_sm_def SM_init_def)

text \<open>
  C5. Two insertions \<open>(x1, y1)\<close> and \<open>(x2, y2)\<close> for the same fidelity tag and key, with as
  many values in each \<open>y\<close> as rows in its \<open>x\<close> and with equal column counts, both succeed
  and leave at that key the rows held before, then the rows of \<open>x1\<close>, then the rows of
  \<open>x2\<close> (and likewise the values of \<open>y1\<close> and \<open>y2\<close>, one per row), nothing removed or
  reordered: the row count grows by \<open>|x1| + |x2|\<close>. For a key that held nothing the rows
  are those of \<open>x1\<close> followed by those of \<open>x2\<close>.
\<close>

theorem add_training_pts_accumulates:
  assumes "training_pts self typ = Some pts"
    and "length y1 = shape0 x1" and "length y2 = shape0 x2"
    and "ncols x2 = ncols x1"
    and "\<forall>x0 y0. pts (key_of kx) = Some (x0, y0) \<longrightarrow> ncols x0 = ncols x1 \<and> ncols y0 = 1"
  shows "let r1 = add_training_pts self typ x1 y1 kx;
             r2 = add_training_pts (snd r1) typ x2 y2 kx;
             k = key_of kx
         in fst r1 = None \<and> fst r2 = None \<and>
            stored_x_rows (snd r2) typ k = stored_x_rows self typ k @ rows x1 @ rows x2 \<and>
            stored_y_rows (snd r2) typ k =
              stored_y_rows self typ k @ map (\<lambda>y. [y]) y1 @ map (\<lambda>y. [y]) y2 \<and>
            length (stored_x_rows (snd r2) typ k) =
              length (stored_x_rows self typ k) + shape0 x1 + shape0 x2 \<and>
            length (stored_y_rows (snd r2) typ k) =
              length (stored_y_rows self typ k) + shape0 x1 + shape0 x2"
proof -
  let ?r1 = "add_training_pts self typ x1 y1 kx"
  let ?r2 = "add_training_pts (snd ?r1) typ x2 y2 kx"
  let ?k = "key_of kx"
  note first = add_training_pts_once [OF assms(1) assms(2) assms(5)]
  from first obtain pts' where
    p: "training_pts (snd ?r1) typ = Some pts'" and
    c: "\<forall>x0 y0. pts' ?k = Some (x0, y0) \<longrightarrow> ncols x0 = ncols x2 \<and> ncols y0 = 1"
    using assms(4) by auto
  note second = add_training_pts_once [OF p assms(3) c]
  have x: "stored_x_rows (snd ?r2) typ ?k = stored_x_rows self typ ?k @ rows x1 @ rows x2"
    using first second by simp
  have y: "stored_y_rows (snd ?r2) typ ?k =
             stored_y_rows self typ ?k @ map (\<lambda>y. [y]) y1 @ map (\<lambda>y. [y]) y2"
    using first second by simp
  have lx: "length (stored_x_rows (snd ?r2) typ ?k) =
              length (stored_x_rows self typ ?k) + shape0 x1 + shape0 x2"
    unfolding x by (simp add: shape0_def)
  have ly: "length (stored_y_rows (snd ?r2) typ ?k) =
              length (stored_y_rows self typ ?k) + shape0 x1 + shape0 x2"
    unfolding y using assms(2,3) by simp
  have e1: "fst ?r1 = None" using first by blast
  have e2: "fst ?r2 = None" using second by blast
  show ?thesis
    unfolding Let_def using e1 e2 x y lx ly by blast
qed

theorem add_training_pts_accumulates_witness:
  "fst (add_training_pts example_sm ''exact'' example_x1 [0] None) = None \<and>
   fst (add_training_pts (snd (add_training_pts example_sm ''exact'' example_x1 [0] None))
          ''exact'' example_x2 [1, 2] None) = None \<and>
   stored_x_rows
     (snd (add_training_pts (snd (add_training_pts example_sm ''exact'' example_x1 [0] None))
          ''exact'' example_x2 [1, 2] None)) ''exact'' 0 = [[0], [1], [2]] \<and>
   stored_y_rows
     (snd (add_training_pts (snd (add_training_pts example_sm ''exact'' example_x1 [0] None))
          ''exact'' example_x2 [1, 2] None)) ''exact'' 0 = [[0], [1], [2]]"
proof -
  have tier: "training_pts example_sm ''exact'' = Some Map.empty"
    by (simp add: example_sm_def SM_init_def)
  have l1: "length [0::real] = shape0 example_x1"
    by (simp add: shape0_def example_x1_def)
  have l2: "length [1, 2::real] = shape0 example_x2"
    by (simp add: shape0_def example_x2_def)
  have c: "ncols example_x2 = ncols example_x1"
    by (simp add: example_x1_def example_x2_def)
  have old: "\<forall>x0 y0. Map.empty (key_of None) = Some (x0, y0) \<longrightarrow>
               ncols x0 = ncols example_x1 \<and> ncols y0 = 1"
    by simp
  have none: "stored_x_rows example_sm ''exact'' 0 = []" "stored_y_rows example_sm ''exact'' 0 = []"
    by (simp_all add: stored_x_rows_def stored_y_rows_def stored_def example_sm_def SM_init_def)
  show ?thesis
    using add_training_pts_accumulates [where kx = None, OF tier l1 l2 c old] none
    by (simp add: Let_def key_of_def example_x1_def example_x2_def)
qed

text \<open>The store invariant holds at construction and is kept by every call.\<close>

lemma store_inv_init: "store_inv (SM_init a b c d e)"
  by (simp add: store_inv_def stored_def SM_init_def)

lemma store_inv_enter: "store_inv self \<Longrightarrow> store_inv (enter self xt kx)"
  by (simp add: store_inv_def stored_enter)

lemma store_inv_set_pts:
  assumes "store_inv self" and "training_pts self typ = Some pts"
    and "shape0 x = shape0 y" and "ncols y = 1"
  shows "store_inv (set_pts self typ pts k (x, y))"
  unfolding store_inv_def
proof (intro allI impI)
  fix typ' k' x' y'
  assume st: "stored (set_pts self typ pts k (x, y)) typ' k' = Some (x', y')"
  show "shape0 x' = shape0 y' \<and> ncols y' = 1"
  proof (cases "typ' = typ \<and> k' = k")
    case True
    then show ?thesis using st assms(3,4) by (simp add: stored_set_pts)
  next
    case False
    have "stored self typ k' = pts k'"
      using assms(2) by (simp add: stored_def)
    with False st have "stored self typ' k' = Some (x', y')"
      by (auto simp add: stored_set_pts split: if_splits)
    then show ?thesis using assms(1) by (simp add: store_inv_def)
  qed
qed

lemma store_inv_add:
  assumes inv: "store_inv self"
  shows "store_inv (snd (add_training_pts self typ xt yt kx))"
proof (cases "length yt = shape0 xt")
  case False
  then show ?thesis using inv by (simp add: add_training_pts_bad_shape)
next
  case len: True
  let ?s = "enter self xt kx"
  let ?yt = "\<lparr> ncols = 1, rows = map (\<lambda>y. [y]) yt \<rparr>"
  have inv1: "store_inv ?s" using inv by (rule store_inv_enter)
  have yt: "shape0 xt = shape0 ?yt" "ncols ?yt = 1"
    using len by (simp_all add: shape0_def)
  show ?thesis
  proof (cases "training_pts self typ")
    case None
    then show ?thesis using inv1 by (simp add: add_training_pts_good_shape [OF len])
  next
    case (Some pts)
    then have tier: "training_pts ?s typ = Some pts" by (simp add: training_pts_enter)
    show ?thesis
    proof (cases "pts (key_of kx)")
      case None
      then show ?thesis
        using Some store_inv_set_pts [OF inv1 tier yt]
        by (simp add: add_training_pts_good_shape [OF len])
    next
      case old: (Some xy)
      obtain x0 y0 where xy: "xy = (x0, y0)" by (cases xy)
      have "stored self typ (key_of kx) = Some (x0, y0)"
        using Some old xy by (simp add: stored_def)
      then have o: "shape0 x0 = shape0 y0" "ncols y0 = 1"
        using inv by (auto simp add: store_inv_def)
      show ?thesis
      proof (cases "ncols x0 = ncols xt")
        case False
        then show ?thesis
          using Some old xy inv1
          by (simp add: add_training_pts_good_shape [OF len] vstack_def)
      next
        case True
        let ?x1 = "\<lparr> ncols = ncols x0, rows = rows x0 @ rows xt \<rparr>"
        let ?y1 = "\<lparr> ncols = ncols y0, rows = rows y0 @ rows ?yt \<rparr>"
        have n: "shape0 ?x1 = shape0 ?y1" "ncols ?y1 = 1"
          using o len by (simp_all add: shape0_def)
        show ?thesis
          using Some old xy True o store_inv_set_pts [OF inv1 tier n]
          by (simp add: add_training_pts_good_shape [OF len] vstack_def)
      qed
    qed
  qed
qed

text \<open>
  C6. A fresh model satisfies the store invariant (every entry has as many rows of Y as of
  X, and Y has one column), and every call of \<open>add_training_pts\<close> keeps it, also a call
  that raises. A call that succeeds had exactly as many values in \<open>yt\<close> as rows in
  \<open>xt\<close> and has appended them, one per row; a call whose \<open>yt\<close> has another length raises
  the \<open>ValueError\<close> of \<open>reshape\<close> and leaves the instance as it was.
\<close>

theorem add_training_pts_preserves_store_inv:
  "store_inv (SM_init default_sm default_printf new_printer sm_opts printf_opts) \<and>
   (store_inv self \<longrightarrow> store_inv (snd (add_training_pts self typ xt yt kx))) \<and>
   (fst (add_training_pts self typ xt yt kx) = None \<longrightarrow>
      length yt = shape0 xt \<and>
      stored_y_rows (snd (add_training_pts self typ xt yt kx)) typ (key_of kx) =
        stored_y_rows self typ (key_of kx) @ map (\<lambda>y. [y]) yt) \<and>
   (length yt \<noteq> shape0 xt \<longrightarrow>
      add_training_pts self typ xt yt kx = (Some ValueError_reshape, self))"
proof (intro conjI impI)
  show "store_inv (SM_init default_sm default_printf new_printer sm_opts printf_opts)"
    by (rule store_inv_init)
next
  assume "store_inv self"
  then show "store_inv (snd (add_training_pts self typ xt yt kx))"
    by (rule store_inv_add)
next
  assume ok: "fst (add_training_pts self typ xt yt kx) = None"
  show "length yt = shape0 xt"
    using add_training_pts_success [OF ok] by simp
  show "stored_y_rows (snd (add_training_pts self typ xt yt kx)) typ (key_of kx) =
          stored_y_rows self typ (key_of kx) @ map (\<lambda>y. [y]) yt"
    using add_training_pts_success [OF ok] by simp
next
  assume "length yt \<noteq> shape0 xt"
  then show "add_training_pts self typ xt yt kx = (Some ValueError_reshape, self)"
    by (rule add_training_pts_bad_shape)
qed

theorem add_training_pts_preserves_store_inv_witness:
  "store_inv example_sm \<and>
   store_inv (snd (add_training_pts example_sm ''exact'' example_x2 [1, 2] None)) \<and>
   fst (add_training_pts example_sm ''exact'' example_x2 [1, 2] None) = None \<and>
   stored_y_rows (snd (add_training_pts example_sm ''exact'' example_x2 [1, 2] None)) ''exact'' 0
     = [[1], [2]] \<and>
   length [1::real] \<noteq> shape0 example_x2 \<and>
   add_training_pts example_sm ''exact'' example_x2 [1] None = (Some ValueError_reshape, example_sm)"
proof -
  have inv: "store_inv example_sm"
    using add_training_pts_preserves_store_inv
      [of "Map.empty :: string \<Rightarrow> nat option" Map.empty "0::nat" None None example_sm "''exact''" example_x2 "[1, 2]" None]
    by (simp add: example_sm_def)
  have ok: "fst (add_training_pts example_sm ''exact'' example_x2 [1, 2] None) = None"
    by (simp add: add_training_pts_def reshape_n1_def shape0_def example_x2_def example_sm_def
          SM_init_def)
  have none: "stored_y_rows example_sm ''exact'' 0 = []"
    by (simp add: stored_y_rows_def stored_def example_sm_def SM_init_def)
  have bad: "length [1::real] \<noteq> shape0 example_x2"
    by (simp add: shape0_def example_x2_def)
  show ?thesis
    using inv ok none bad
      add_training_pts_preserves_store_inv
        [of "Map.empty :: string \<Rightarrow> nat option" Map.empty "0::nat" None None example_sm "''exact''" example_x2 "[1, 2]" None]
      add_training_pts_preserves_store_inv
        [of "Map.empty :: string \<Rightarrow> nat option" Map.empty "0::nat" None None example_sm "''exact''" example_x2 "[1]" None]
    by (simp add: key_of_def)
qed

text \<open>
  C10. On a fresh model, \<open>add_training_pts\<close> with a fidelity tag other than \<open>'exact'\<close>
  always raises and never creates the tier: the store is still \<open>{'exact': {}}\<close>. When
  \<open>yt\<close> passes the \<open>reshape\<close>, the exception is the \<open>KeyError\<close> of the tag.
\<close>

theorem add_training_pts_unknown_fidelity:
  assumes "typ \<noteq> ''exact''"
  shows "fst (add_training_pts (SM_init default_sm default_printf new_printer sm_opts printf_opts)
                typ xt yt kx) \<noteq> None \<and>
         training_pts (snd (add_training_pts
                (SM_init default_sm default_printf new_printer sm_opts printf_opts) typ xt yt kx))
           = [''exact'' \<mapsto> Map.empty] \<and>
         (length yt = shape0 xt \<longrightarrow>
            fst (add_training_pts (SM_init default_sm default_printf new_printer sm_opts printf_opts)
                   typ xt yt kx) = Some (KeyError (KStr typ)))"
proof (cases "length yt = shape0 xt")
  case True
  show ?thesis
    using assms True
    by (simp add: add_training_pts_good_shape [OF True] training_pts_enter SM_init_def)
next
  case False
  then show ?thesis
    by (simp add: add_training_pts_bad_shape SM_init_def)
qed

theorem add_training_pts_unknown_fidelity_witness:
  "''approx'' \<noteq> ''exact'' \<and> length [1, 2::real] = shape0 example_x2 \<and>
   fst (add_training_pts example_sm ''approx'' example_x2 [1, 2] None) = Some (KeyError (KStr ''approx'')) \<and>
   training_pts (snd (add_training_pts example_sm ''approx'' example_x2 [1, 2] None))
     = [''exact'' \<mapsto> Map.empty]"
proof -
  have ne: "''approx'' \<noteq> ''exact''" by simp
  have len: "length [1, 2::real] = shape0 example_x2"
    by (simp add: shape0_def example_x2_def)
  show ?thesis
    using ne len
      add_training_pts_unknown_fidelity
        [OF ne, of "Map.empty :: string \<Rightarrow> nat option" Map.empty "0::nat" None None example_x2 "[1, 2]" None]
    by (simp add: example_sm_def)
qed

section \<open>The result cache\<close>

text \<open>
  C7. \<open>_caching_load\<close> returns \<open>(True, payload)\<close> exactly when the location holds a
  readable record whose stored checksum equals the expected one, and \<open>(False, None)\<close> in
  every other case: a missing or unreadable file, a file that is no record, another
  checksum. It returns a pair in every case, since every exception of the \<open>try\<close> block is
  caught.
\<close>

theorem caching_load_hit_iff:
  "(fst (caching_load loads fs filename checksum) \<longleftrightarrow>
      (\<exists>p. record_at loads fs filename = Some (PyStr checksum, p))) \<and>
   caching_load loads fs filename checksum =
     (case record_at loads fs filename of
        None \<Rightarrow> (False, PyNone)
      | Some (c, p) \<Rightarrow> if c = PyStr checksum then (True, p) else (False, PyNone))"
  by (auto simp add: caching_load_def caching_load_try_def record_at_def
        split: option.splits unpickled.splits)

theorem caching_load_hit_iff_witness:
  "record_at Some (example_fs\<lparr> files := [''sm.pkl'' \<mapsto> PyDict [''checksum'' \<mapsto> PyStr ''ab'', ''data'' \<mapsto> PyData 7]] \<rparr>) ''sm.pkl''
     = Some (PyStr ''ab'', PyData 7) \<and>
   caching_load Some (example_fs\<lparr> files := [''sm.pkl'' \<mapsto> PyDict [''checksum'' \<mapsto> PyStr ''ab'', ''data'' \<mapsto> PyData 7]] \<rparr>) ''sm.pkl'' ''ab''
     = (True, PyData 7) \<and>
   caching_load Some (example_fs\<lparr> files := [''sm.pkl'' \<mapsto> PyDict [''checksum'' \<mapsto> PyStr ''ab'', ''data'' \<mapsto> PyData 7]] \<rparr>) ''sm.pkl'' ''cd''
     = (False, PyNone) \<and>
   caching_load Some example_fs ''sm.pkl'' ''ab'' = (False, PyNone) \<and>
   caching_load Some example_fs ''other.pkl'' ''ab'' = (False, PyNone)"
  using caching_load_hit_iff [of Some "example_fs\<lparr> files := [''sm.pkl'' \<mapsto> PyDict [''checksum'' \<mapsto> PyStr ''ab'', ''data'' \<mapsto> PyData 7]] \<rparr>" "''sm.pkl''" "''ab''"]
    caching_load_hit_iff [of Some "example_fs\<lparr> files := [''sm.pkl'' \<mapsto> PyDict [''checksum'' \<mapsto> PyStr ''ab'', ''data'' \<mapsto> PyData 7]] \<rparr>" "''sm.pkl''" "''cd''"]
    caching_load_hit_iff [of Some example_fs "''sm.pkl''" "''ab''"]
    caching_load_hit_iff [of Some example_fs "''other.pkl''" "''ab''"]
  by (simp add: record_at_def example_fs_def)

text \<open>
  C8. When the location can be written and \<open>pickle\<close> reads back the saved dictionary,
  \<open>_caching_save\<close> followed by \<open>_caching_load\<close> at the same location with the same
  checksum returns \<open>(True, payload)\<close>, whatever the location held before.
\<close>

theorem caching_save_load_roundtrip:
  assumes "writable fs filename"
    and "loads (dumps (PyDict [''checksum'' \<mapsto> PyStr checksum, ''data'' \<mapsto> data])) =
           Some (PyDict [''checksum'' \<mapsto> PyStr checksum, ''data'' \<mapsto> data])"
  shows "case caching_save dumps fs filename checksum data of
           Inl e \<Rightarrow> False
         | Inr fs' \<Rightarrow> caching_load loads fs' filename checksum = (True, data)"
  using assms
  by (simp add: caching_save_def caching_load_def caching_load_try_def)

theorem caching_save_load_roundtrip_witness:
  "writable example_fs ''sm.pkl'' \<and>
   files example_fs ''sm.pkl'' = Some (PyOther PyNone) \<and>
   (case caching_save (\<lambda>obj. obj) example_fs ''sm.pkl'' ''ab'' (PyData 7) of
      Inl e \<Rightarrow> False
    | Inr fs' \<Rightarrow> caching_load Some fs' ''sm.pkl'' ''ab'' = (True, PyData 7))"
proof -
  have w: "writable example_fs ''sm.pkl''"
    by (simp add: example_fs_def)
  have r: "Some ((\<lambda>obj. obj) (PyDict [''checksum'' \<mapsto> PyStr ''ab'', ''data'' \<mapsto> PyData (7::nat)])) =
           Some (PyDict [''checksum'' \<mapsto> PyStr ''ab'', ''data'' \<mapsto> PyData 7])"
    by simp
  show ?thesis
    using w caching_save_load_roundtrip [of example_fs "''sm.pkl''" Some "\<lambda>obj. obj" "''ab''" "PyData 7", OF w r]
    by (simp add: example_fs_def)
qed




end
